theory Spec2Isabelle
  imports Main
begin

section \<open>ERP Orchestrator API: the task store and the conversation gate of main.py\<close>

text \<open>
  A shallow embedding of \<^verbatim>\<open>src/main.py\<close>. Pydantic models are records, Literal types
  are datatypes, every \<^verbatim>\<open>raise\<close> is a value of the error type, the MongoDB collection is
  an explicit store passed in and returned, and the clock (\<^verbatim>\<open>datetime.now\<close>) is a
  parameter of each handler. Strings are \<^typ>\<open>string\<close>; \<^verbatim>\<open>str.lower\<close> is modelled on
  the ASCII letters: the keywords the chat handler looks for are ASCII, and the reply
  echoes the content as it came, not its lower-cased form.
\<close>

subsection \<open>Errors\<close>

text \<open>
  \<^verbatim>\<open>HTTPException(status_code=400, detail="Invalid id")\<close> and
  \<^verbatim>\<open>HTTPException(status_code=404, detail="Task not found")\<close> are the two exceptions the
  handlers raise themselves. \<open>RequestValidationError\<close> is the rejection of a request body
  by its Pydantic model before the handler runs (FastAPI answers 422). \<open>ServerError\<close>
  stands for an exception no handler catches (FastAPI answers 500): a Pydantic
  \<^verbatim>\<open>ValidationError\<close> raised by \<^verbatim>\<open>Task(**doc)\<close> inside \<^verbatim>\<open>serialize_task\<close>, or a write
  error of the store. \<open>IndexError\<close> is Python's error for indexing an empty list.
\<close>

datatype error =
    HTTPException nat string
  | RequestValidationError
  | ServerError
  | IndexError

text \<open>
  The spec's taxonomy (section 7): Bad-Request is a client-fixable input problem
  (malformed identifier, out-of-range field, missing required field); Not-Found is the
  absence of a record for a well-formed identifier.
\<close>

fun is_bad_request :: "error \<Rightarrow> bool" where
  "is_bad_request (HTTPException code detail) = (code = 400)"
| "is_bad_request RequestValidationError = True"
| "is_bad_request ServerError = False"
| "is_bad_request IndexError = False"


subsection \<open>Strings: lower-casing and the substring test\<close>

definition lower_char :: "char \<Rightarrow> char" where
  "lower_char c =
     (let n = (of_char c :: nat)
      in if 65 \<le> n \<and> n \<le> 90 then char_of (n + 32) else c)"

definition lower :: "string \<Rightarrow> string" where
  "lower s = map lower_char s"

fun starts_with :: "string \<Rightarrow> string \<Rightarrow> bool" where
  "starts_with [] hay = True"
| "starts_with (n # ns) [] = False"
| "starts_with (n # ns) (h # hs) = (n = h \<and> starts_with ns hs)"

text \<open>Python's \<^verbatim>\<open>needle in hay\<close> on strings.\<close>

fun str_in :: "string \<Rightarrow> string \<Rightarrow> bool" where
  "str_in needle [] = (needle = [])"
| "str_in needle (h # hs) = (starts_with needle (h # hs) \<or> str_in needle hs)"

subsection \<open>Chat models\<close>







subsection \<open>The chat handler\<close>









subsection \<open>Task models\<close>

text \<open>
  \<^verbatim>\<open>Status\<close> and \<^verbatim>\<open>StepStatus\<close> are Literal types over the same four strings.
\<close>

datatype status = Running | Queued | Complete | Error

definition parse_status :: "string \<Rightarrow> status option" where
  "parse_status s =
     (if s = ''running'' then Some Running
      else if s = ''queued'' then Some Queued
      else if s = ''complete'' then Some Complete
      else if s = ''error'' then Some Error
      else None)"

record Step =
  step_name :: string
  step_status :: status
  step_llm :: "string option"
  step_progress :: "int option"
  step_duration :: "string option"

text \<open>
  \<^verbatim>\<open>content: Any\<close> holds whatever JSON value the caller sent; integers stand for the
  numbers (floating point is outside the model).
\<close>

datatype json =
    JNull
  | JBool bool
  | JInt int
  | JStr string
  | JArr "json list"
  | JObj "(string \<times> json) list"

datatype block_type =
  Heading | Text | Table | Chart | Code | Callout | Image | Divider | Quote | ListBlock | Embed

definition parse_block_type :: "string \<Rightarrow> block_type option" where
  "parse_block_type s =
     (if s = ''heading'' then Some Heading
      else if s = ''text'' then Some Text
      else if s = ''table'' then Some Table
      else if s = ''chart'' then Some Chart
      else if s = ''code'' then Some Code
      else if s = ''callout'' then Some Callout
      else if s = ''image'' then Some Image
      else if s = ''divider'' then Some Divider
      else if s = ''quote'' then Some Quote
      else if s = ''list'' then Some ListBlock
      else if s = ''embed'' then Some Embed
      else None)"

record BlockMetadata =
  level :: "int option"
  formatting :: "string list option"
  language :: "string option"
  variant :: "string option"
  chartType :: "string option"

record Block =
  block_id :: string
  block_type :: block_type
  block_content :: json
  block_metadata :: "BlockMetadata option"

record Task =
  t_id :: "string option"
  name :: string
  status :: status
  progress :: int
  user :: string
  llm :: string
  startTime :: "string option"
  duration :: "string option"
  steps :: "Step list"
  canvas :: "Block list"
  logs :: "string list"

record CreateTaskRequest =
  cr_name :: string
  cr_user :: string
  cr_llm :: string
  cr_steps :: "Step list option"

text \<open>
  A field of a request body is absent, supplied as \<^verbatim>\<open>null\<close>, or supplied with a value.
  \<^verbatim>\<open>UpdateTaskRequest\<close> keeps the three apart: Pydantic records which fields were set,
  and \<^verbatim>\<open>model_dump(exclude_unset=True)\<close> reads it back.
\<close>

datatype 'a supplied = Absent | Null | Val 'a

record UpdateTaskRequest =
  u_name :: "string supplied"
  u_status :: "status supplied"
  u_progress :: "int supplied"
  u_user :: "string supplied"
  u_llm :: "string supplied"
  u_duration :: "string supplied"
  u_steps :: "Step list supplied"
  u_canvas :: "Block list supplied"
  u_logs :: "string list supplied"
  u_append_log :: "string supplied"

subsection \<open>Request bodies and their validation\<close>

text \<open>
  A request body as FastAPI hands it to the Pydantic model: every declared field absent,
  null or a value of the field's base type, and the keys the model does not declare
  (\<open>extra\<close>). Validation is what the model's annotations say: a required field must be
  supplied, a field that is not \<^verbatim>\<open>Optional\<close> refuses null, a Literal field refuses a
  string outside its enumeration, \<^verbatim>\<open>Field(ge=.., le=..)\<close> refuses a number outside the
  range, and undeclared keys are ignored (Pydantic's default). Pydantic's coercion of a
  value of another JSON type is outside the model.
\<close>

record RawStep =
  rs_name :: "string supplied"
  rs_status :: "string supplied"
  rs_llm :: "string supplied"
  rs_progress :: "int supplied"
  rs_duration :: "string supplied"

record RawBlockMetadata =
  rm_level :: "int supplied"
  rm_formatting :: "string list supplied"
  rm_language :: "string supplied"
  rm_variant :: "string supplied"
  rm_chartType :: "string supplied"

record RawBlock =
  rb_id :: "string supplied"
  rb_type :: "string supplied"
  rb_content :: "json supplied"
  rb_metadata :: "RawBlockMetadata supplied"

record RawCreate =
  rc_name :: "string supplied"
  rc_user :: "string supplied"
  rc_llm :: "string supplied"
  rc_steps :: "RawStep list supplied"
  rc_extra :: "(string \<times> json) list"

record RawUpdate =
  ru_name :: "string supplied"
  ru_status :: "string supplied"
  ru_progress :: "int supplied"
  ru_user :: "string supplied"
  ru_llm :: "string supplied"
  ru_duration :: "string supplied"
  ru_steps :: "RawStep list supplied"
  ru_canvas :: "RawBlock list supplied"
  ru_logs :: "string list supplied"
  ru_append_log :: "string supplied"
  ru_extra :: "(string \<times> json) list"

text \<open>\<^verbatim>\<open>x: T\<close> with no default: the field is required and refuses null.\<close>

fun required :: "'a supplied \<Rightarrow> error + 'a" where
  "required Absent = Inl RequestValidationError"
| "required Null = Inl RequestValidationError"
| "required (Val v) = Inr v"

text \<open>\<^verbatim>\<open>x: T = d\<close>: the default when absent; null is refused.\<close>

fun defaulted :: "'a \<Rightarrow> 'a supplied \<Rightarrow> error + 'a" where
  "defaulted d Absent = Inr d"
| "defaulted d Null = Inl RequestValidationError"
| "defaulted d (Val v) = Inr v"

text \<open>\<^verbatim>\<open>x: Optional[T] = None\<close>.\<close>

fun optional :: "'a supplied \<Rightarrow> 'a option" where
  "optional Absent = None"
| "optional Null = None"
| "optional (Val v) = Some v"

text \<open>\<^verbatim>\<open>Field(ge=lo, le=hi)\<close> on an integer.\<close>

definition in_range :: "int \<Rightarrow> int \<Rightarrow> int \<Rightarrow> error + int" where
  "in_range lo hi i = (if lo \<le> i \<and> i \<le> hi then Inr i else Inl RequestValidationError)"

definition literal :: "(string \<Rightarrow> 'a option) \<Rightarrow> string \<Rightarrow> error + 'a" where
  "literal parse s = (case parse s of None \<Rightarrow> Inl RequestValidationError | Some v \<Rightarrow> Inr v)"

text \<open>A value under a validator, keeping absent and null as they are.\<close>

fun validate_supplied :: "('a \<Rightarrow> error + 'b) \<Rightarrow> 'a supplied \<Rightarrow> error + 'b supplied" where
  "validate_supplied f Absent = Inr Absent"
| "validate_supplied f Null = Inr Null"
| "validate_supplied f (Val v) = (case f v of Inl e \<Rightarrow> Inl e | Inr w \<Rightarrow> Inr (Val w))"

fun validate_all :: "('a \<Rightarrow> error + 'b) \<Rightarrow> 'a list \<Rightarrow> error + 'b list" where
  "validate_all f [] = Inr []"
| "validate_all f (x # xs) =
     (case f x of
        Inl e \<Rightarrow> Inl e
      | Inr y \<Rightarrow> (case validate_all f xs of Inl e \<Rightarrow> Inl e | Inr ys \<Rightarrow> Inr (y # ys)))"

definition validate_step :: "RawStep \<Rightarrow> error + Step" where
  "validate_step rs =
     (case required (rs_name rs) of
        Inl e \<Rightarrow> Inl e
      | Inr n \<Rightarrow>
     (case (case defaulted ''queued'' (rs_status rs) of
              Inl e \<Rightarrow> Inl e | Inr s \<Rightarrow> literal parse_status s) of
        Inl e \<Rightarrow> Inl e
      | Inr s \<Rightarrow>
     (case validate_supplied (in_range 0 100) (rs_progress rs) of
        Inl e \<Rightarrow> Inl e
      | Inr p \<Rightarrow>
          Inr \<lparr>step_name = n, step_status = s, step_llm = optional (rs_llm rs),
               step_progress = optional p, step_duration = optional (rs_duration rs)\<rparr>)))"

definition validate_metadata :: "RawBlockMetadata \<Rightarrow> error + BlockMetadata" where
  "validate_metadata rm =
     (case validate_supplied (in_range 1 3) (rm_level rm) of
        Inl e \<Rightarrow> Inl e
      | Inr l \<Rightarrow>
          Inr \<lparr>level = optional l, formatting = optional (rm_formatting rm),
               language = optional (rm_language rm), variant = optional (rm_variant rm),
               chartType = optional (rm_chartType rm)\<rparr>)"

text \<open>
  \<^verbatim>\<open>content: Any\<close> is required and takes any value, \<^verbatim>\<open>null\<close> included.
\<close>

fun any_required :: "json supplied \<Rightarrow> error + json" where
  "any_required Absent = Inl RequestValidationError"
| "any_required Null = Inr JNull"
| "any_required (Val v) = Inr v"

definition validate_block :: "RawBlock \<Rightarrow> error + Block" where
  "validate_block rb =
     (case required (rb_id rb) of
        Inl e \<Rightarrow> Inl e
      | Inr i \<Rightarrow>
     (case (case required (rb_type rb) of
              Inl e \<Rightarrow> Inl e | Inr t \<Rightarrow> literal parse_block_type t) of
        Inl e \<Rightarrow> Inl e
      | Inr t \<Rightarrow>
     (case any_required (rb_content rb) of
        Inl e \<Rightarrow> Inl e
      | Inr c \<Rightarrow>
     (case validate_supplied validate_metadata (rb_metadata rb) of
        Inl e \<Rightarrow> Inl e
      | Inr m \<Rightarrow>
          Inr \<lparr>block_id = i, block_type = t, block_content = c,
               block_metadata = optional m\<rparr>))))"

definition validate_create :: "RawCreate \<Rightarrow> error + CreateTaskRequest" where
  "validate_create rc =
     (case required (rc_name rc) of
        Inl e \<Rightarrow> Inl e
      | Inr n \<Rightarrow>
     (case defaulted ''You'' (rc_user rc) of
        Inl e \<Rightarrow> Inl e
      | Inr u \<Rightarrow>
     (case defaulted ''Claude Sonnet 4.5'' (rc_llm rc) of
        Inl e \<Rightarrow> Inl e
      | Inr l \<Rightarrow>
     (case validate_supplied (validate_all validate_step) (rc_steps rc) of
        Inl e \<Rightarrow> Inl e
      | Inr ss \<Rightarrow>
          Inr \<lparr>cr_name = n, cr_user = u, cr_llm = l, cr_steps = optional ss\<rparr>))))"

definition validate_update :: "RawUpdate \<Rightarrow> error + UpdateTaskRequest" where
  "validate_update ru =
     (case validate_supplied (literal parse_status) (ru_status ru) of
        Inl e \<Rightarrow> Inl e
      | Inr s \<Rightarrow>
     (case validate_supplied (in_range 0 100) (ru_progress ru) of
        Inl e \<Rightarrow> Inl e
      | Inr p \<Rightarrow>
     (case validate_supplied (validate_all validate_step) (ru_steps ru) of
        Inl e \<Rightarrow> Inl e
      | Inr ss \<Rightarrow>
     (case validate_supplied (validate_all validate_block) (ru_canvas ru) of
        Inl e \<Rightarrow> Inl e
      | Inr cv \<Rightarrow>
          Inr \<lparr>u_name = ru_name ru, u_status = s, u_progress = p, u_user = ru_user ru,
               u_llm = ru_llm ru, u_duration = ru_duration ru, u_steps = ss, u_canvas = cv,
               u_logs = ru_logs ru, u_append_log = ru_append_log ru\<rparr>))))"

subsection \<open>The backing store\<close>

text \<open>
  \<^verbatim>\<open>bson.ObjectId\<close> (a library, taken at its documented contract): a string is an
  identifier when it is 24 hexadecimal digits, and \<^verbatim>\<open>InvalidId\<close> is raised otherwise
  (\<open>None\<close>). Two strings that differ only in the case of their digits name the same
  identifier, and \<^verbatim>\<open>str\<close> prints the lower-case digits, so an identifier is kept as
  its lower-case digits.
\<close>

datatype objectid = ObjectId string

definition is_hex :: "char \<Rightarrow> bool" where
  "is_hex c =
     (let n = (of_char c :: nat)
      in (48 \<le> n \<and> n \<le> 57) \<or> (65 \<le> n \<and> n \<le> 70) \<or> (97 \<le> n \<and> n \<le> 102))"

definition object_id :: "string \<Rightarrow> objectid option" where
  "object_id s =
     (if length s = 24 \<and> list_all is_hex s then Some (ObjectId (lower s)) else None)"

fun str_oid :: "objectid \<Rightarrow> string" where
  "str_oid (ObjectId h) = h"

text \<open>\<^verbatim>\<open>oid(id_str)\<close>.\<close>

definition oid :: "string \<Rightarrow> error + objectid" where
  "oid id_str =
     (case object_id id_str of
        None \<Rightarrow> Inl (HTTPException 400 ''Invalid id'')
      | Some k \<Rightarrow> Inr k)"

text \<open>
  A stored document of the \<^verbatim>\<open>task\<close> collection, keyed by its \<^verbatim>\<open>_id\<close>. Every field can
  hold \<^verbatim>\<open>null\<close> (\<open>None\<close>), since \<^verbatim>\<open>$set\<close> writes whatever the update request dumps.
  \<^verbatim>\<open>startTime\<close> is the ISO string \<^verbatim>\<open>create_task\<close> writes, or a BSON date, which
  \<^verbatim>\<open>serialize_task\<close> renders in UTC: a date is represented by that rendering. The steps
  and blocks of a document are kept as validated models: a field the dump leaves out
  reads back as its default. The store is taken to hold only documents of this shape.
\<close>

datatype stored_time = IsoString string | Datetime string

record doc =
  d_name :: "string option"
  d_status :: "status option"
  d_progress :: "int option"
  d_user :: "string option"
  d_llm :: "string option"
  d_startTime :: "stored_time option"
  d_duration :: "string option"
  d_steps :: "Step list option"
  d_canvas :: "Block list option"
  d_logs :: "string list option"
  d_updated_at :: "string option"

type_synonym store = "objectid \<Rightarrow> doc option"

text \<open>
  \<^verbatim>\<open>update_one({"_id": k}, op)\<close> without upsert: no document matches, nothing is written;
  an operator the server refuses raises a write error and writes nothing.
\<close>

definition update_one :: "objectid \<Rightarrow> (doc \<Rightarrow> error + doc) \<Rightarrow> store \<Rightarrow> error + store" where
  "update_one k op db =
     (case db k of
        None \<Rightarrow> Inr db
      | Some d \<Rightarrow> (case op d of Inl e \<Rightarrow> Inl e | Inr d' \<Rightarrow> Inr (db(k \<mapsto> d'))))"

text \<open>
  \<^verbatim>\<open>{"$push": {"logs": v}, "$set": {"updated_at": now}}\<close>: MongoDB appends to an array
  and refuses \<^verbatim>\<open>$push\<close> on a field that holds a value that is not an array.
\<close>

definition push_log :: "string \<Rightarrow> string \<Rightarrow> doc \<Rightarrow> error + doc" where
  "push_log v now d =
     (case d_logs d of
        None \<Rightarrow> Inl ServerError
      | Some ls \<Rightarrow> Inr (d\<lparr>d_logs := Some (ls @ [v]), d_updated_at := Some now\<rparr>))"

text \<open>One key of \<^verbatim>\<open>{"$set": updates}\<close>: absent from the dictionary, null, or a value.\<close>

fun set_field :: "'a supplied \<Rightarrow> 'a option \<Rightarrow> 'a option" where
  "set_field Absent old = old"
| "set_field Null old = None"
| "set_field (Val v) old = Some v"

text \<open>
  \<^verbatim>\<open>updates\<close> is \<^verbatim>\<open>req.model_dump(exclude_unset=True)\<close> without the key
  \<^verbatim>\<open>append_log\<close>: the fields the request set, null included. It is falsy when empty.
\<close>

definition updates_empty :: "UpdateTaskRequest \<Rightarrow> bool" where
  "updates_empty req \<longleftrightarrow>
     u_name req = Absent \<and> u_status req = Absent \<and> u_progress req = Absent \<and>
     u_user req = Absent \<and> u_llm req = Absent \<and> u_duration req = Absent \<and>
     u_steps req = Absent \<and> u_canvas req = Absent \<and> u_logs req = Absent"

definition apply_set :: "UpdateTaskRequest \<Rightarrow> string \<Rightarrow> doc \<Rightarrow> doc" where
  "apply_set req now d =
     d\<lparr>d_name := set_field (u_name req) (d_name d),
       d_status := set_field (u_status req) (d_status d),
       d_progress := set_field (u_progress req) (d_progress d),
       d_user := set_field (u_user req) (d_user d),
       d_llm := set_field (u_llm req) (d_llm d),
       d_duration := set_field (u_duration req) (d_duration d),
       d_steps := set_field (u_steps req) (d_steps d),
       d_canvas := set_field (u_canvas req) (d_canvas d),
       d_logs := set_field (u_logs req) (d_logs d),
       d_updated_at := Some now\<rparr>"

text \<open>\<^verbatim>\<open>{"$set": updates}\<close> with the \<^verbatim>\<open>updated_at\<close> stamp; the server refuses none.\<close>

definition set_updates :: "UpdateTaskRequest \<Rightarrow> string \<Rightarrow> doc \<Rightarrow> error + doc" where
  "set_updates req now d = Inr (apply_set req now d)"

subsection \<open>Reading a document back as a Task\<close>

text \<open>
  \<^verbatim>\<open>Task(**doc)\<close> validates the stored values again: the fields of \<^verbatim>\<open>Task\<close> that are not
  \<^verbatim>\<open>Optional\<close> refuse null, and the ranges of \<^verbatim>\<open>progress\<close> and \<^verbatim>\<open>level\<close> are checked.
\<close>

definition step_ok :: "Step \<Rightarrow> bool" where
  "step_ok s = (case step_progress s of None \<Rightarrow> True | Some p \<Rightarrow> 0 \<le> p \<and> p \<le> 100)"

definition metadata_ok :: "BlockMetadata \<Rightarrow> bool" where
  "metadata_ok m = (case level m of None \<Rightarrow> True | Some l \<Rightarrow> 1 \<le> l \<and> l \<le> 3)"

definition block_ok :: "Block \<Rightarrow> bool" where
  "block_ok b = (case block_metadata b of None \<Rightarrow> True | Some m \<Rightarrow> metadata_ok m)"

fun iso_start :: "stored_time option \<Rightarrow> string option" where
  "iso_start None = None"
| "iso_start (Some (IsoString s)) = Some s"
| "iso_start (Some (Datetime s)) = Some s"

definition doc_valid :: "doc \<Rightarrow> bool" where
  "doc_valid d \<longleftrightarrow>
     d_name d \<noteq> None \<and> d_status d \<noteq> None \<and> d_user d \<noteq> None \<and> d_llm d \<noteq> None \<and>
     (case d_progress d of None \<Rightarrow> False | Some p \<Rightarrow> 0 \<le> p \<and> p \<le> 100) \<and>
     (case d_steps d of None \<Rightarrow> False | Some ss \<Rightarrow> list_all step_ok ss) \<and>
     (case d_canvas d of None \<Rightarrow> False | Some cv \<Rightarrow> list_all block_ok cv) \<and>
     d_logs d \<noteq> None"

text \<open>\<^verbatim>\<open>serialize_task(doc)\<close>, for the document stored under \<open>k\<close>.\<close>

definition serialize_task :: "objectid \<Rightarrow> doc \<Rightarrow> error + Task" where
  "serialize_task k d =
     (if doc_valid d then
        Inr \<lparr>t_id = Some (str_oid k), name = the (d_name d), status = the (d_status d),
             progress = the (d_progress d), user = the (d_user d), llm = the (d_llm d),
             startTime = iso_start (d_startTime d), duration = d_duration d,
             steps = the (d_steps d), canvas = the (d_canvas d), logs = the (d_logs d)\<rparr>
      else Inl ServerError)"

subsection \<open>The task handlers\<close>

text \<open>
  Modelled from the spec: the document \<^verbatim>\<open>create_document\<close> stores for a Task.
  \<^verbatim>\<open>create_document\<close> is in \<^verbatim>\<open>database.py\<close>, which is not among the sources; the spec
  gives the store's \<^verbatim>\<open>insert(record) -> id\<close>, so the document is the record, field by
  field, with no \<^verbatim>\<open>updated_at\<close> stamp yet (the spec stamps updates only).
\<close>

definition doc_of_task :: "Task \<Rightarrow> doc" where
  "doc_of_task t =
     \<lparr>d_name = Some (name t), d_status = Some (status t), d_progress = Some (progress t),
      d_user = Some (user t), d_llm = Some (llm t),
      d_startTime = map_option IsoString (startTime t), d_duration = duration t,
      d_steps = Some (steps t), d_canvas = Some (canvas t), d_logs = Some (logs t),
      d_updated_at = None\<rparr>"

text \<open>
  Modelled from the spec: \<^verbatim>\<open>create_document(collection, task)\<close>, the store's
  \<^verbatim>\<open>insert(record) -> id\<close>. The record is stored under the identifier the store assigns
  (\<open>new_oid\<close>) and the identifier is returned as a string; an identifier already in use
  is a duplicate key error.
\<close>

definition create_document :: "objectid \<Rightarrow> store \<Rightarrow> Task \<Rightarrow> error + string \<times> store" where
  "create_document new_oid db t =
     (case db new_oid of
        Some d \<Rightarrow> Inl ServerError
      | None \<Rightarrow> Inr (str_oid new_oid, db(new_oid \<mapsto> doc_of_task t)))"

definition default_steps :: "Step list" where
  "default_steps =
     [\<lparr>step_name = ''Analyze Data'', step_status = Queued, step_llm = None,
       step_progress = None, step_duration = None\<rparr>,
      \<lparr>step_name = ''Write Summary'', step_status = Queued, step_llm = None,
       step_progress = None, step_duration = None\<rparr>,
      \<lparr>step_name = ''Gen Charts'', step_status = Queued, step_llm = None,
       step_progress = None, step_duration = None\<rparr>,
      \<lparr>step_name = ''Final Assembly'', step_status = Queued, step_llm = None,
       step_progress = None, step_duration = None\<rparr>]"

text \<open>\<^verbatim>\<open>req.steps or [...]\<close>: \<^verbatim>\<open>None\<close> and the empty list are falsy.\<close>

definition steps_or_default :: "Step list option \<Rightarrow> Step list" where
  "steps_or_default ss =
     (case ss of None \<Rightarrow> default_steps | Some xs \<Rightarrow> if xs = [] then default_steps else xs)"

text \<open>
  \<^verbatim>\<open>create_task(req)\<close>. \<open>now\<close> is \<^verbatim>\<open>datetime.now(timezone.utc).isoformat()\<close>. The read
  back uses \<^verbatim>\<open>ObjectId(new_id)\<close> unguarded, and \<^verbatim>\<open>serialize_task(None)\<close> raises.
\<close>

definition create_task ::
  "string \<Rightarrow> objectid \<Rightarrow> store \<Rightarrow> CreateTaskRequest \<Rightarrow> (error + Task) \<times> store" where
  "create_task now new_oid db req =
     (let task = \<lparr>t_id = None, name = cr_name req, status = Queued, progress = 0,
                  user = cr_user req, llm = cr_llm req, startTime = Some now,
                  duration = None, steps = steps_or_default (cr_steps req),
                  canvas = [], logs = [''Task created'']\<rparr>
      in case create_document new_oid db task of
           Inl e \<Rightarrow> (Inl e, db)
         | Inr (new_id, db1) \<Rightarrow>
             (case object_id new_id of
                None \<Rightarrow> (Inl ServerError, db1)
              | Some k \<Rightarrow>
                  (case db1 k of
                     None \<Rightarrow> (Inl ServerError, db1)
                   | Some d \<Rightarrow> (serialize_task k d, db1))))"

text \<open>\<^verbatim>\<open>get_task(task_id)\<close>.\<close>

definition get_task :: "store \<Rightarrow> string \<Rightarrow> error + Task" where
  "get_task db task_id =
     (case oid task_id of
        Inl e \<Rightarrow> Inl e
      | Inr k \<Rightarrow>
          (case db k of
             None \<Rightarrow> Inl (HTTPException 404 ''Task not found'')
           | Some d \<Rightarrow> serialize_task k d))"

text \<open>
  \<^verbatim>\<open>if req.append_log:\<close> takes the branch for a string that is not empty; \<^verbatim>\<open>None\<close> and
  the empty string are falsy.
\<close>

fun append_payload :: "string supplied \<Rightarrow> string option" where
  "append_payload Absent = None"
| "append_payload Null = None"
| "append_payload (Val s) = (if s = [] then None else Some s)"

text \<open>
  \<^verbatim>\<open>update_task(task_id, req)\<close>: the \<^verbatim>\<open>$push\<close> of \<^verbatim>\<open>append_log\<close> first, then the
  \<^verbatim>\<open>$set\<close> of \<^verbatim>\<open>updates\<close>, then the read. \<open>now1\<close> and \<open>now2\<close> are the two readings of
  the clock. The store is returned as it stands when the handler returns or raises.
\<close>

definition update_task ::
  "string \<Rightarrow> string \<Rightarrow> store \<Rightarrow> string \<Rightarrow> UpdateTaskRequest \<Rightarrow> (error + Task) \<times> store" where
  "update_task now1 now2 db task_id req =
     (case (case append_payload (u_append_log req) of
              None \<Rightarrow> Inr db
            | Some v \<Rightarrow>
                (case oid task_id of
                   Inl e \<Rightarrow> Inl e
                 | Inr k \<Rightarrow> update_one k (push_log v now1) db)) of
        Inl e \<Rightarrow> (Inl e, db)
      | Inr db1 \<Rightarrow>
     (case (if updates_empty req then Inr db1
            else (case oid task_id of
                    Inl e \<Rightarrow> Inl e
                  | Inr k \<Rightarrow> update_one k (set_updates req now2) db1)) of
        Inl e \<Rightarrow> (Inl e, db1)
      | Inr db2 \<Rightarrow>
     (case oid task_id of
        Inl e \<Rightarrow> (Inl e, db2)
      | Inr k \<Rightarrow>
          (case db2 k of
             None \<Rightarrow> (Inl (HTTPException 404 ''Task not found''), db2)
           | Some d \<Rightarrow> (serialize_task k d, db2)))))"

text \<open>
  The routes as FastAPI runs them: the body is validated by the request model before
  the handler is called, and a body the model refuses leaves the store alone.
\<close>

definition post_tasks ::
  "string \<Rightarrow> objectid \<Rightarrow> store \<Rightarrow> RawCreate \<Rightarrow> (error + Task) \<times> store" where
  "post_tasks now new_oid db body =
     (case validate_create body of
        Inl e \<Rightarrow> (Inl e, db)
      | Inr req \<Rightarrow> create_task now new_oid db req)"

definition patch_task ::
  "string \<Rightarrow> string \<Rightarrow> store \<Rightarrow> string \<Rightarrow> RawUpdate \<Rightarrow> (error + Task) \<times> store" where
  "patch_task now1 now2 db task_id body =
     (case validate_update body of
        Inl e \<Rightarrow> (Inl e, db)
      | Inr req \<Rightarrow> update_task now1 now2 db task_id req)"

subsection \<open>Validated requests and a stored example\<close>



text \<open>The request that sets nothing, and the bodies that supply nothing.\<close>

definition empty_update :: UpdateTaskRequest where
  "empty_update =
     \<lparr>u_name = Absent, u_status = Absent, u_progress = Absent, u_user = Absent,
      u_llm = Absent, u_duration = Absent, u_steps = Absent, u_canvas = Absent,
      u_logs = Absent, u_append_log = Absent\<rparr>"

definition empty_body :: RawUpdate where
  "empty_body =
     \<lparr>ru_name = Absent, ru_status = Absent, ru_progress = Absent, ru_user = Absent,
      ru_llm = Absent, ru_duration = Absent, ru_steps = Absent, ru_canvas = Absent,
      ru_logs = Absent, ru_append_log = Absent, ru_extra = []\<rparr>"

definition named_body :: "string \<Rightarrow> RawCreate" where
  "named_body n =
     \<lparr>rc_name = Val n, rc_user = Absent, rc_llm = Absent, rc_steps = Absent, rc_extra = []\<rparr>"

definition named_step :: "string \<Rightarrow> RawStep" where
  "named_step n =
     \<lparr>rs_name = Val n, rs_status = Absent, rs_llm = Absent, rs_progress = Absent,
      rs_duration = Absent\<rparr>"

text \<open>A store holding one task as \<^verbatim>\<open>create_task\<close> leaves it, with a duration set.\<close>

definition ex_id :: string where
  "ex_id = ''65a1b2c3d4e5f60718293a4b''"

definition ex_key :: objectid where
  "ex_key = ObjectId ''65a1b2c3d4e5f60718293a4b''"

definition ex_doc :: doc where
  "ex_doc =
     \<lparr>d_name = Some ''Q4 report'', d_status = Some Queued, d_progress = Some 0,
      d_user = Some ''You'', d_llm = Some ''Claude Sonnet 4.5'',
      d_startTime = Some (IsoString ''2024-01-01T00:00:00+00:00''), d_duration = Some ''5m'',
      d_steps = Some default_steps, d_canvas = Some [], d_logs = Some [''Task created''],
      d_updated_at = None\<rparr>"

definition ex_task :: Task where
  "ex_task =
     \<lparr>t_id = Some ''65a1b2c3d4e5f60718293a4b'', name = ''Q4 report'', status = Queued,
      progress = 0, user = ''You'', llm = ''Claude Sonnet 4.5'',
      startTime = Some ''2024-01-01T00:00:00+00:00'', duration = Some ''5m'',
      steps = default_steps, canvas = [], logs = [''Task created'']\<rparr>"

definition ex_db :: store where
  "ex_db = [ex_key \<mapsto> ex_doc]"

section \<open>Properties\<close>

subsection \<open>The substring test is the substring relation\<close>

lemma starts_with_iff: "starts_with n h \<longleftrightarrow> (\<exists>s. h = n @ s)"
  by (induction n h rule: starts_with.induct) auto

lemma str_in_iff: "str_in n h \<longleftrightarrow> (\<exists>p s. h = p @ n @ s)"
proof (induction h)
  case Nil
  then show ?case by auto
next
  case (Cons c cs)
  show ?case
  proof
    assume "str_in n (c # cs)"
    then consider "starts_with n (c # cs)" | "str_in n cs" by auto
    then show "\<exists>p s. c # cs = p @ n @ s"
    proof cases
      case 1
      then obtain s where "c # cs = n @ s" by (auto simp: starts_with_iff)
      then have "c # cs = [] @ n @ s" by simp
      then show ?thesis by blast
    next
      case 2
      with Cons obtain p s where "cs = p @ n @ s" by auto
      then have "c # cs = (c # p) @ n @ s" by simp
      then show ?thesis by blast
    qed
  next
    assume "\<exists>p s. c # cs = p @ n @ s"
    then obtain p s where ps: "c # cs = p @ n @ s" by blast
    show "str_in n (c # cs)"
    proof (cases p)
      case Nil
      with ps have "starts_with n (c # cs)" by (auto simp: starts_with_iff)
      then show ?thesis by simp
    next
      case (Cons q qs)
      with ps have "cs = qs @ n @ s" by simp
      with Cons.IH have "str_in n cs" by blast
      then show ?thesis by simp
    qed
  qed
qed


subsection \<open>Validation: the error raised and what an accepted request satisfies\<close>

lemma required_err: "required x = Inl e \<Longrightarrow> e = RequestValidationError"
  by (cases x) auto

lemma defaulted_err: "defaulted d x = Inl e \<Longrightarrow> e = RequestValidationError"
  by (cases x) auto

lemma any_required_err: "any_required x = Inl e \<Longrightarrow> e = RequestValidationError"
  by (cases x) auto

lemma in_range_err: "in_range lo hi i = Inl e \<Longrightarrow> e = RequestValidationError"
  by (auto simp: in_range_def split: if_splits)

lemma literal_err: "literal p s = Inl e \<Longrightarrow> e = RequestValidationError"
  by (auto simp: literal_def split: option.splits)

lemma validate_supplied_err:
  "validate_supplied f x = Inl e \<Longrightarrow> (\<And>v e'. f v = Inl e' \<Longrightarrow> e' = RequestValidationError) \<Longrightarrow>
   e = RequestValidationError"
  by (cases x) (auto split: sum.splits)

lemma validate_all_err:
  "validate_all f xs = Inl e \<Longrightarrow> (\<And>v e'. f v = Inl e' \<Longrightarrow> e' = RequestValidationError) \<Longrightarrow>
   e = RequestValidationError"
  by (induction xs) (auto split: sum.splits)

lemma validate_step_err: "validate_step rs = Inl e \<Longrightarrow> e = RequestValidationError"
  by (auto simp: validate_step_def split: sum.splits
      dest: required_err defaulted_err literal_err
      dest!: validate_supplied_err [where f = "in_range 0 100"] in_range_err)

lemma validate_metadata_err: "validate_metadata rm = Inl e \<Longrightarrow> e = RequestValidationError"
  by (auto simp: validate_metadata_def split: sum.splits
      dest!: validate_supplied_err [where f = "in_range 1 3"] in_range_err)

lemma validate_block_err: "validate_block rb = Inl e \<Longrightarrow> e = RequestValidationError"
  by (auto simp: validate_block_def split: sum.splits
      dest: required_err literal_err any_required_err
      dest!: validate_supplied_err [where f = validate_metadata] validate_metadata_err)

lemma validate_steps_err:
  "validate_supplied (validate_all validate_step) x = Inl e \<Longrightarrow> e = RequestValidationError"
  by (erule validate_supplied_err) (erule validate_all_err, erule validate_step_err)

lemma validate_canvas_err:
  "validate_supplied (validate_all validate_block) x = Inl e \<Longrightarrow> e = RequestValidationError"
  by (erule validate_supplied_err) (erule validate_all_err, erule validate_block_err)

lemma validate_create_err: "validate_create body = Inl e \<Longrightarrow> e = RequestValidationError"
  by (auto simp: validate_create_def split: sum.splits
      dest: required_err defaulted_err validate_steps_err)

lemma validate_update_err: "validate_update body = Inl e \<Longrightarrow> e = RequestValidationError"
  by (auto simp: validate_update_def split: sum.splits
      dest: validate_steps_err validate_canvas_err
      dest!: validate_supplied_err [where f = "literal parse_status"] literal_err
             validate_supplied_err [where f = "in_range 0 100"] in_range_err)

lemma validate_all_bad:
  "x \<in> set xs \<Longrightarrow> f x = Inl e \<Longrightarrow> \<exists>e'. validate_all f xs = Inl e'"
  by (induction xs) (auto split: sum.splits)

lemma validate_step_bad_progress:
  "rs_progress rs = Val p \<Longrightarrow> p < 0 \<or> 100 < p \<Longrightarrow> \<exists>e. validate_step rs = Inl e"
  by (auto simp: validate_step_def in_range_def split: sum.splits)

lemma validate_step_ok: "validate_step rs = Inr s \<Longrightarrow> step_ok s"
  by (cases "rs_progress rs")
     (auto simp: validate_step_def step_ok_def in_range_def split: sum.splits if_splits)

lemma validate_all_ok:
  "validate_all f xs = Inr ys \<Longrightarrow> (\<And>x y. f x = Inr y \<Longrightarrow> P y) \<Longrightarrow> list_all P ys"
  by (induction xs arbitrary: ys) (auto split: sum.splits)



subsection \<open>The handlers on an identifier that is invalid, unknown or known\<close>





lemma update_task_found:
  assumes "object_id task_id = Some k" and "db k = Some d"
    and "append_payload (u_append_log req) = None \<or> d_logs d \<noteq> None"
  shows "update_task now1 now2 db task_id req =
     (let d1 = (case append_payload (u_append_log req) of
                  None \<Rightarrow> d
                | Some v \<Rightarrow> d\<lparr>d_logs := Some (the (d_logs d) @ [v]), d_updated_at := Some now1\<rparr>);
          d2 = (if updates_empty req then d1 else apply_set req now2 d1)
      in (serialize_task k d2, db(k \<mapsto> d2)))"
  using assms
  by (auto simp: update_task_def oid_def update_one_def push_log_def set_updates_def Let_def
      fun_upd_idem split: option.splits)

lemma update_task_push_refused:
  assumes "object_id task_id = Some k" and "db k = Some d"
    and "append_payload (u_append_log req) = Some v" and "d_logs d = None"
  shows "update_task now1 now2 db task_id req = (Inl ServerError, db)"
  using assms
  by (simp add: update_task_def oid_def update_one_def push_log_def)

subsection \<open>Accepted requests\<close>

lemma validate_steps_bad:
  assumes "rs \<in> set rss" and "rs_progress rs = Val q" and "q < 0 \<or> 100 < q"
  shows "\<exists>e. validate_supplied (validate_all validate_step) (Val rss) = Inl e"
proof -
  from validate_step_bad_progress [OF assms(2,3)] obtain e where "validate_step rs = Inl e" ..
  with assms(1) show ?thesis
    using validate_all_bad [where f = validate_step and x = rs and xs = rss] by auto
qed

lemma validate_update_bad_progress:
  assumes "ru_progress body = Val p" and "p < 0 \<or> 100 < p"
  shows "validate_update body = Inl RequestValidationError"
proof -
  have "\<exists>e. validate_update body = Inl e"
    using assms by (auto simp: validate_update_def in_range_def split: sum.splits)
  then show ?thesis
    by (auto dest: validate_update_err)
qed

lemma validate_update_bad_step:
  assumes "ru_steps body = Val rss" and "rs \<in> set rss" and "rs_progress rs = Val q"
    and "q < 0 \<or> 100 < q"
  shows "validate_update body = Inl RequestValidationError"
proof -
  have "\<exists>e. validate_update body = Inl e"
    using assms(1) validate_steps_bad [OF assms(2,3,4)]
    by (auto simp: validate_update_def split: sum.splits)
  then show ?thesis
    by (auto dest: validate_update_err)
qed

lemma validate_create_bad_step:
  assumes "rc_steps body = Val rss" and "rs \<in> set rss" and "rs_progress rs = Val q"
    and "q < 0 \<or> 100 < q"
  shows "validate_create body = Inl RequestValidationError"
proof -
  have "\<exists>e. validate_create body = Inl e"
    using assms(1) validate_steps_bad [OF assms(2,3,4)]
    by (auto simp: validate_create_def split: sum.splits)
  then show ?thesis
    by (auto dest: validate_create_err)
qed

lemma validate_update_good_progress:
  "0 \<le> p \<Longrightarrow> p \<le> 100 \<Longrightarrow>
   validate_update (body\<lparr>ru_progress := Val p\<rparr>) =
     map_sum id (\<lambda>r. r\<lparr>u_progress := Val p\<rparr>) (validate_update (body\<lparr>ru_progress := Absent\<rparr>))"
  by (simp add: validate_update_def in_range_def split: sum.splits)

lemma validate_step_good_progress:
  "0 \<le> p \<Longrightarrow> p \<le> 100 \<Longrightarrow>
   validate_step (rs\<lparr>rs_progress := Val p\<rparr>) =
     map_sum id (\<lambda>s. s\<lparr>step_progress := Some p\<rparr>) (validate_step (rs\<lparr>rs_progress := Absent\<rparr>))"
  by (simp add: validate_step_def in_range_def split: sum.splits)

lemma validate_update_extra: "validate_update (body\<lparr>ru_extra := x\<rparr>) = validate_update body"
  by (simp add: validate_update_def cong: sum.case_cong)

lemma validate_create_extra: "validate_create (body\<lparr>rc_extra := x\<rparr>) = validate_create body"
  by (simp add: validate_create_def cong: sum.case_cong)

lemma default_steps_ok: "list_all step_ok default_steps"
  by (simp add: default_steps_def step_ok_def)

lemma validate_create_ok:
  "validate_create body = Inr req \<Longrightarrow>
   (case cr_steps req of None \<Rightarrow> True | Some ss \<Rightarrow> list_all step_ok ss)"
  by (cases "rc_steps body")
     (auto simp: validate_create_def split: sum.splits
       dest: validate_all_ok [where P = step_ok, OF _ validate_step_ok])

lemma steps_or_default_ok:
  "(case ss of None \<Rightarrow> True | Some xs \<Rightarrow> list_all step_ok xs) \<Longrightarrow>
   list_all step_ok (steps_or_default ss)"
  by (auto simp: steps_or_default_def default_steps_ok split: option.splits)




lemma named_body_valid:
  "validate_create (named_body n) =
     Inr \<lparr>cr_name = n, cr_user = ''You'', cr_llm = ''Claude Sonnet 4.5'', cr_steps = None\<rparr>"
  by (simp add: validate_create_def named_body_def)

lemma one_step_valid:
  "validate_create ((named_body n)\<lparr>rc_steps := Val [named_step m]\<rparr>) =
     Inr \<lparr>cr_name = n, cr_user = ''You'', cr_llm = ''Claude Sonnet 4.5'',
          cr_steps = Some [\<lparr>step_name = m, step_status = Queued, step_llm = None,
                            step_progress = None, step_duration = None\<rparr>]\<rparr>"
  by (simp add: validate_create_def named_body_def named_step_def validate_step_def
      literal_def parse_status_def)

lemma named_step_valid:
  "validate_step (named_step n) =
     Inr \<lparr>step_name = n, step_status = Queued, step_llm = None, step_progress = None,
          step_duration = None\<rparr>"
  by (simp add: validate_step_def named_step_def literal_def parse_status_def)

lemma empty_body_valid: "validate_update empty_body = Inr empty_update"
  by (simp add: validate_update_def empty_body_def empty_update_def)

subsection \<open>The stored document after an update, and a created task\<close>

lemma update_task_stored:
  assumes "object_id task_id = Some k" and "db k = Some d"
  shows "snd (update_task now1 now2 db task_id req) =
     db(k \<mapsto>
        (case append_payload (u_append_log req) of
           None \<Rightarrow> if updates_empty req then d else apply_set req now2 d
         | Some v \<Rightarrow>
             (case d_logs d of
                None \<Rightarrow> d
              | Some ls \<Rightarrow>
                  if updates_empty req
                  then d\<lparr>d_logs := Some (ls @ [v]), d_updated_at := Some now1\<rparr>
                  else apply_set req now2
                         (d\<lparr>d_logs := Some (ls @ [v]), d_updated_at := Some now1\<rparr>))))"
proof (cases "append_payload (u_append_log req)")
  case None
  then show ?thesis
    using assms update_task_found [where task_id = task_id and k = k and db = db and d = d and req = req and ?now1.0 = now1 and ?now2.0 = now2]
    by (simp add: Let_def)
next
  case (Some v)
  show ?thesis
  proof (cases "d_logs d")
    case None
    with Some assms show ?thesis
      by (simp add: update_task_push_refused fun_upd_idem)
  next
    case (Some ls)
    with \<open>append_payload (u_append_log req) = Some v\<close> show ?thesis
      using assms update_task_found [where task_id = task_id and k = k and db = db and d = d and req = req and ?now1.0 = now1 and ?now2.0 = now2]
      by (simp add: Let_def)
  qed
qed

lemma update_task_fst:
  assumes "object_id task_id = Some k" and "db k = Some d"
  shows "fst (update_task now1 now2 db task_id req) =
     (if append_payload (u_append_log req) \<noteq> None \<and> d_logs d = None then Inl ServerError
      else serialize_task k (the (snd (update_task now1 now2 db task_id req) k)))"
proof (cases "append_payload (u_append_log req) \<noteq> None \<and> d_logs d = None")
  case True
  then show ?thesis
    using assms update_task_push_refused [where task_id = task_id and k = k and db = db
        and d = d and req = req and ?now1.0 = now1 and ?now2.0 = now2]
    by auto
next
  case False
  then show ?thesis
    using assms update_task_found [where task_id = task_id and k = k and db = db
        and d = d and req = req and ?now1.0 = now1 and ?now2.0 = now2]
    by (auto simp: Let_def)
qed

lemma create_task_fresh:
  assumes "db new_oid = None" and "object_id (str_oid new_oid) = Some new_oid"
    and "case cr_steps req of None \<Rightarrow> True | Some ss \<Rightarrow> list_all step_ok ss"
  shows "create_task now new_oid db req =
     (Inr \<lparr>t_id = Some (str_oid new_oid), name = cr_name req, status = Queued, progress = 0,
           user = cr_user req, llm = cr_llm req, startTime = Some now, duration = None,
           steps = steps_or_default (cr_steps req), canvas = [], logs = [''Task created'']\<rparr>,
      db(new_oid \<mapsto>
         \<lparr>d_name = Some (cr_name req), d_status = Some Queued, d_progress = Some 0,
          d_user = Some (cr_user req), d_llm = Some (cr_llm req),
          d_startTime = Some (IsoString now), d_duration = None,
          d_steps = Some (steps_or_default (cr_steps req)), d_canvas = Some [],
          d_logs = Some [''Task created''], d_updated_at = None\<rparr>))"
  using assms steps_or_default_ok [of "cr_steps req"]
  by (simp add: create_task_def create_document_def doc_of_task_def serialize_task_def
      doc_valid_def Let_def)

lemma create_task_progress:
  "object_id (str_oid new_oid) = Some new_oid \<Longrightarrow>
   create_task now new_oid db req = (Inr t, db') \<Longrightarrow> progress t = 0"
  by (auto simp: create_task_def create_document_def doc_of_task_def serialize_task_def Let_def
      split: option.splits if_splits)

subsection \<open>The stored example\<close>

lemma ex_object_id: "object_id ex_id = Some ex_key"
  unfolding ex_id_def ex_key_def by code_simp

lemma ex_key_roundtrip: "object_id (str_oid ex_key) = Some ex_key"
  unfolding ex_key_def str_oid.simps by code_simp


lemma ex_db_key: "ex_db ex_key = Some ex_doc"
  by (simp add: ex_db_def)

lemma ex_doc_valid: "doc_valid ex_doc"
  by (simp add: doc_valid_def ex_doc_def default_steps_ok)

lemma ex_serialize: "serialize_task ex_key ex_doc = Inr ex_task"
  by (simp add: serialize_task_def ex_doc_valid) (simp add: ex_doc_def ex_task_def ex_key_def)

lemma ex_get_task: "get_task ex_db ex_id = Inr ex_task"
  by (simp add: get_task_def oid_def ex_object_id ex_db_key ex_serialize)

lemma ex_update:
  shows "update_task now1 now2 ex_db ex_id req =
     (let d1 = (case append_payload (u_append_log req) of
                  None \<Rightarrow> ex_doc
                | Some v \<Rightarrow> ex_doc\<lparr>d_logs := Some (the (d_logs ex_doc) @ [v]),
                                   d_updated_at := Some now1\<rparr>);
          d2 = (if updates_empty req then d1 else apply_set req now2 d1)
      in (serialize_task ex_key d2, ex_db(ex_key \<mapsto> d2)))"
  using ex_object_id ex_db_key
    update_task_found [where task_id = ex_id and k = ex_key and db = ex_db and d = ex_doc
      and req = req and ?now1.0 = now1 and ?now2.0 = now2]
  by (simp add: ex_doc_def)

subsection \<open>The task store\<close>

text \<open>
  C1. A create request that passes validation, on a store that assigns a fresh, well
  formed identifier, yields a Task with status queued, progress 0, an empty canvas and
  the single log entry "Task created". When the request supplies no steps, or an empty
  list, the steps are the four defaults 'Analyze Data', 'Write Summary', 'Gen Charts',
  'Final Assembly', in that order and all queued; when it supplies a list that is not
  empty, the steps are that list. The Task returned is the one a read of the new
  identifier returns.
\<close>

theorem create_task_defaults:
  assumes "validate_create body = Inr req"
    and "db new_oid = None" and "object_id (str_oid new_oid) = Some new_oid"
  shows "\<exists>t db'. post_tasks now new_oid db body = (Inr t, db') \<and>
           status t = Queued \<and> progress t = 0 \<and> canvas t = [] \<and> logs t = [''Task created''] \<and>
           (cr_steps req = None \<or> cr_steps req = Some [] \<longrightarrow> steps t = default_steps) \<and>
           (\<forall>ss. cr_steps req = Some ss \<and> ss \<noteq> [] \<longrightarrow> steps t = ss) \<and>
           map step_name default_steps =
             [''Analyze Data'', ''Write Summary'', ''Gen Charts'', ''Final Assembly''] \<and>
           map step_status default_steps = [Queued, Queued, Queued, Queued] \<and>
           get_task db' (str_oid new_oid) = Inr t"
proof -
  let ?ss = "steps_or_default (cr_steps req)"
  let ?t = "\<lparr>t_id = Some (str_oid new_oid), name = cr_name req, status = Queued, progress = 0,
           user = cr_user req, llm = cr_llm req, startTime = Some now, duration = None,
           steps = ?ss, canvas = [], logs = [''Task created'']\<rparr>"
  let ?d = "\<lparr>d_name = Some (cr_name req), d_status = Some Queued, d_progress = Some 0,
          d_user = Some (cr_user req), d_llm = Some (cr_llm req),
          d_startTime = Some (IsoString now), d_duration = None,
          d_steps = Some ?ss, d_canvas = Some [],
          d_logs = Some [''Task created''], d_updated_at = None\<rparr>"
  have ok: "case cr_steps req of None \<Rightarrow> True | Some ss \<Rightarrow> list_all step_ok ss"
    by (rule validate_create_ok [OF assms(1)])
  have sok: "list_all step_ok ?ss"
    by (rule steps_or_default_ok [OF ok])
  have post: "post_tasks now new_oid db body = (Inr ?t, db(new_oid \<mapsto> ?d))"
    using assms ok create_task_fresh [of db new_oid req now]
    by (simp add: post_tasks_def)
  have get: "get_task (db(new_oid \<mapsto> ?d)) (str_oid new_oid) = Inr ?t"
    using assms(3) sok by (simp add: get_task_def oid_def serialize_task_def doc_valid_def)
  have dflt: "cr_steps req = None \<or> cr_steps req = Some [] \<longrightarrow> ?ss = default_steps"
    by (auto simp: steps_or_default_def)
  have given: "\<forall>ss. cr_steps req = Some ss \<and> ss \<noteq> [] \<longrightarrow> ?ss = ss"
    by (simp add: steps_or_default_def)
  have shape: "map step_name default_steps =
      [''Analyze Data'', ''Write Summary'', ''Gen Charts'', ''Final Assembly''] \<and>
      map step_status default_steps = [Queued, Queued, Queued, Queued]"
    by (simp add: default_steps_def)
  from post get dflt given shape show ?thesis
    by simp
qed

theorem create_task_defaults_witness:
  "validate_create (named_body ''Q4 report'') =
     Inr \<lparr>cr_name = ''Q4 report'', cr_user = ''You'', cr_llm = ''Claude Sonnet 4.5'',
          cr_steps = None\<rparr> \<and>
   Map.empty ex_key = (None :: doc option) \<and> object_id (str_oid ex_key) = Some ex_key \<and>
   (\<exists>t db'. post_tasks ''2024-01-01T00:00:00+00:00'' ex_key Map.empty
               (named_body ''Q4 report'') = (Inr t, db') \<and>
      status t = Queued \<and> progress t = 0 \<and> canvas t = [] \<and> logs t = [''Task created''] \<and>
      steps t = default_steps) \<and>
   (\<exists>t db'. post_tasks ''2024-01-01T00:00:00+00:00'' ex_key Map.empty
               ((named_body ''Q4 report'')\<lparr>rc_steps := Val [named_step ''Only'']\<rparr>) =
               (Inr t, db') \<and>
      steps t = [\<lparr>step_name = ''Only'', step_status = Queued, step_llm = None,
                  step_progress = None, step_duration = None\<rparr>])"
  using create_task_defaults [where body = "named_body ''Q4 report''"
      and req = "\<lparr>cr_name = ''Q4 report'', cr_user = ''You'', cr_llm = ''Claude Sonnet 4.5'',
          cr_steps = None\<rparr>" and db = Map.empty and new_oid = ex_key
      and now = "''2024-01-01T00:00:00+00:00''"]
    create_task_defaults [where body = "(named_body ''Q4 report'')\<lparr>rc_steps := Val [named_step ''Only'']\<rparr>"
      and req = "\<lparr>cr_name = ''Q4 report'', cr_user = ''You'', cr_llm = ''Claude Sonnet 4.5'',
          cr_steps = Some [\<lparr>step_name = ''Only'', step_status = Queued, step_llm = None,
                            step_progress = None, step_duration = None\<rparr>]\<rparr>"
      and db = Map.empty and new_oid = ex_key and now = "''2024-01-01T00:00:00+00:00''"]
  by (simp add: named_body_valid one_step_valid ex_key_roundtrip) blast

text \<open>
  C2. The claim: when \<^verbatim>\<open>logs\<close> and \<^verbatim>\<open>append_log\<close> come in one update, the final logs
  show both the replacement and the appended entry. \<^verbatim>\<open>update_task\<close> issues the
  \<^verbatim>\<open>$push\<close> first and the \<^verbatim>\<open>$set\<close> of \<^verbatim>\<open>logs\<close> second: on the stored example, with
  \<^verbatim>\<open>logs = ["replaced"]\<close> and \<^verbatim>\<open>append_log = "step 1 done"\<close>, the stored and the returned
  logs are \<^verbatim>\<open>["replaced"]\<close> and the appended entry is gone.
\<close>

theorem replace_discards_append:
  "update_task ''t1'' ''t2'' ex_db ex_id
     (empty_update\<lparr>u_logs := Val [''replaced''], u_append_log := Val ''step 1 done''\<rparr>) =
   (Inr (ex_task\<lparr>logs := [''replaced'']\<rparr>),
    [ex_key \<mapsto> ex_doc\<lparr>d_logs := Some [''replaced''], d_updated_at := Some ''t2''\<rparr>])"
  by (simp add: ex_update Let_def)
     (simp add: empty_update_def updates_empty_def apply_set_def serialize_task_def
       doc_valid_def ex_doc_def ex_task_def ex_db_def ex_key_def default_steps_ok)

text \<open>
  C3. An update of an existing task changes only what the request supplies: every stored
  field the request leaves out keeps its value (the logs also when no entry is
  appended), and no other document is touched; only the internal \<^verbatim>\<open>updated_at\<close>
  stamp moves. In particular an update that supplies only \<^verbatim>\<open>status\<close>, on a task that
  reads as \<open>t\<close>, returns \<open>t\<close> with the new status: name, steps, canvas and logs
  are as before.
\<close>

theorem update_frame:
  assumes "object_id task_id = Some k" and "db k = Some d"
  shows "(\<exists>d'. snd (update_task now1 now2 db task_id req) k = Some d' \<and>
           (u_name req = Absent \<longrightarrow> d_name d' = d_name d) \<and>
           (u_status req = Absent \<longrightarrow> d_status d' = d_status d) \<and>
           (u_progress req = Absent \<longrightarrow> d_progress d' = d_progress d) \<and>
           (u_user req = Absent \<longrightarrow> d_user d' = d_user d) \<and>
           (u_llm req = Absent \<longrightarrow> d_llm d' = d_llm d) \<and>
           (u_duration req = Absent \<longrightarrow> d_duration d' = d_duration d) \<and>
           (u_steps req = Absent \<longrightarrow> d_steps d' = d_steps d) \<and>
           (u_canvas req = Absent \<longrightarrow> d_canvas d' = d_canvas d) \<and>
           (u_logs req = Absent \<and> append_payload (u_append_log req) = None \<longrightarrow>
              d_logs d' = d_logs d)) \<and>
         (\<forall>k'. k' \<noteq> k \<longrightarrow> snd (update_task now1 now2 db task_id req) k' = db k') \<and>
         (\<forall>t s. get_task db task_id = Inr t \<and> req = empty_update\<lparr>u_status := Val s\<rparr> \<longrightarrow>
            fst (update_task now1 now2 db task_id req) = Inr (t\<lparr>status := s\<rparr>))"
proof -
  note stored = update_task_stored [where task_id = task_id and k = k and db = db and d = d
      and req = req and ?now1.0 = now1 and ?now2.0 = now2, OF assms]
  have a: "\<exists>d'. snd (update_task now1 now2 db task_id req) k = Some d' \<and>
           (u_name req = Absent \<longrightarrow> d_name d' = d_name d) \<and>
           (u_status req = Absent \<longrightarrow> d_status d' = d_status d) \<and>
           (u_progress req = Absent \<longrightarrow> d_progress d' = d_progress d) \<and>
           (u_user req = Absent \<longrightarrow> d_user d' = d_user d) \<and>
           (u_llm req = Absent \<longrightarrow> d_llm d' = d_llm d) \<and>
           (u_duration req = Absent \<longrightarrow> d_duration d' = d_duration d) \<and>
           (u_steps req = Absent \<longrightarrow> d_steps d' = d_steps d) \<and>
           (u_canvas req = Absent \<longrightarrow> d_canvas d' = d_canvas d) \<and>
           (u_logs req = Absent \<and> append_payload (u_append_log req) = None \<longrightarrow>
              d_logs d' = d_logs d)"
    by (simp add: stored apply_set_def split: option.splits)
  have b: "\<forall>k'. k' \<noteq> k \<longrightarrow> snd (update_task now1 now2 db task_id req) k' = db k'"
    by (simp add: stored)
  have c: "\<forall>t s. get_task db task_id = Inr t \<and> req = empty_update\<lparr>u_status := Val s\<rparr> \<longrightarrow>
           fst (update_task now1 now2 db task_id req) = Inr (t\<lparr>status := s\<rparr>)"
  proof (intro allI impI, elim conjE)
    fix t s
    assume g: "get_task db task_id = Inr t" and r: "req = empty_update\<lparr>u_status := Val s\<rparr>"
    from g assms have ser: "serialize_task k d = Inr t"
      by (simp add: get_task_def oid_def)
    then have v: "doc_valid d"
      by (simp add: serialize_task_def split: if_splits)
    have ap: "append_payload (u_append_log req) = None" and ne: "\<not> updates_empty req"
      by (simp_all add: r empty_update_def updates_empty_def)
    have "fst (update_task now1 now2 db task_id req) = serialize_task k (apply_set req now2 d)"
      using assms update_task_found [where task_id = task_id and k = k and db = db and d = d and req = req and ?now1.0 = now1 and ?now2.0 = now2] ap ne by (simp add: Let_def)
    also have "\<dots> = Inr (t\<lparr>status := s\<rparr>)"
      using ser v by (auto simp: serialize_task_def doc_valid_def apply_set_def r empty_update_def
          split: if_splits)
    finally show "fst (update_task now1 now2 db task_id req) = Inr (t\<lparr>status := s\<rparr>)" .
  qed
  show ?thesis
    by (rule conjI [OF a conjI [OF b c]])
qed

theorem update_frame_witness:
  "object_id ex_id = Some ex_key \<and> ex_db ex_key = Some ex_doc \<and>
   get_task ex_db ex_id = Inr ex_task \<and>
   fst (update_task ''t1'' ''t2'' ex_db ex_id (empty_update\<lparr>u_status := Val Running\<rparr>)) =
     Inr (ex_task\<lparr>status := Running\<rparr>) \<and>
   (\<exists>d'. snd (update_task ''t1'' ''t2'' ex_db ex_id (empty_update\<lparr>u_status := Val Running\<rparr>))
            ex_key = Some d' \<and>
      d_name d' = d_name ex_doc \<and> d_steps d' = d_steps ex_doc \<and>
      d_canvas d' = d_canvas ex_doc \<and> d_logs d' = d_logs ex_doc)"
  using update_frame [where task_id = ex_id and k = ex_key and db = ex_db and d = ex_doc
      and req = "empty_update\<lparr>u_status := Val Running\<rparr>" and ?now1.0 = "''t1''"
      and ?now2.0 = "''t2''"]
  by (simp add: ex_object_id ex_db_key ex_get_task) (auto simp: empty_update_def)




text \<open>
  C5, as stated for every create request, fails for the Task's progress:
  \<^verbatim>\<open>CreateTaskRequest\<close> declares no \<^verbatim>\<open>progress\<close>, so a body that carries
  \<^verbatim>\<open>"progress": -1\<close> is accepted, the key is ignored, and the task is stored with
  progress 0.
\<close>

theorem create_ignores_progress_counterexample:
  "post_tasks ''2024-01-01T00:00:00+00:00'' ex_key Map.empty
     ((named_body ''Q4 report'')\<lparr>rc_extra := [(''progress'', JInt (- 1))]\<rparr>) =
   (Inr (ex_task\<lparr>duration := None\<rparr>), [ex_key \<mapsto> ex_doc\<lparr>d_duration := None\<rparr>])"
  by (simp add: post_tasks_def validate_create_def named_body_def create_task_def
      create_document_def doc_of_task_def ex_key_roundtrip Let_def steps_or_default_def)
     (simp add: serialize_task_def doc_valid_def default_steps_ok ex_task_def ex_doc_def
       ex_key_def)

text \<open>
  C5, amended. An update whose \<^verbatim>\<open>progress\<close> is outside 0..100 (so -1 and 101), and an
  update or a create request with a step whose \<^verbatim>\<open>progress\<close> is outside 0..100, is
  rejected by validation, a Bad-Request in the spec's taxonomy, and the store is
  unchanged. A progress inside 0..100 (so 0 and 100) is never the reason for a
  rejection: the body validates as it does without the field, with the value set. A
  create request cannot carry the Task's progress: keys the model does not declare are
  ignored, and a created Task has progress 0.
\<close>

theorem progress_out_of_range_rejected:
  "(ru_progress body = Val p \<and> (p < 0 \<or> 100 < p) \<longrightarrow>
      patch_task now1 now2 db task_id body = (Inl RequestValidationError, db)) \<and>
   (\<forall>rss rs q. ru_steps body = Val rss \<and> rs \<in> set rss \<and> rs_progress rs = Val q \<and>
      (q < 0 \<or> 100 < q) \<longrightarrow>
      patch_task now1 now2 db task_id body = (Inl RequestValidationError, db)) \<and>
   (\<forall>rss rs q. rc_steps cbody = Val rss \<and> rs \<in> set rss \<and> rs_progress rs = Val q \<and>
      (q < 0 \<or> 100 < q) \<longrightarrow>
      post_tasks now new_oid db cbody = (Inl RequestValidationError, db)) \<and>
   is_bad_request RequestValidationError \<and>
   (0 \<le> p \<and> p \<le> 100 \<longrightarrow>
      validate_update (body\<lparr>ru_progress := Val p\<rparr>) =
        map_sum id (\<lambda>r. r\<lparr>u_progress := Val p\<rparr>)
          (validate_update (body\<lparr>ru_progress := Absent\<rparr>))) \<and>
   (\<forall>rs. 0 \<le> p \<and> p \<le> 100 \<longrightarrow>
      validate_step (rs\<lparr>rs_progress := Val p\<rparr>) =
        map_sum id (\<lambda>s. s\<lparr>step_progress := Some p\<rparr>)
          (validate_step (rs\<lparr>rs_progress := Absent\<rparr>))) \<and>
   (\<forall>x. validate_create (cbody\<lparr>rc_extra := x\<rparr>) = validate_create cbody) \<and>
   (\<forall>t db'. object_id (str_oid new_oid) = Some new_oid \<and>
      post_tasks now new_oid db cbody = (Inr t, db') \<longrightarrow> progress t = 0)"
proof -
  have a: "patch_task now1 now2 db task_id body = (Inl RequestValidationError, db)"
    if "ru_progress body = Val p" and "p < 0 \<or> 100 < p"
    using validate_update_bad_progress [OF that] by (simp add: patch_task_def)
  have b: "patch_task now1 now2 db task_id body = (Inl RequestValidationError, db)"
    if "ru_steps body = Val rss" and "rs \<in> set rss" and "rs_progress rs = Val q"
      and "q < 0 \<or> 100 < q" for rss rs q
    using validate_update_bad_step [OF that] by (simp add: patch_task_def)
  have c: "post_tasks now new_oid db cbody = (Inl RequestValidationError, db)"
    if "rc_steps cbody = Val rss" and "rs \<in> set rss" and "rs_progress rs = Val q"
      and "q < 0 \<or> 100 < q" for rss rs q
    using validate_create_bad_step [OF that] by (simp add: post_tasks_def)
  have d: "progress t = 0"
    if "object_id (str_oid new_oid) = Some new_oid"
      and "post_tasks now new_oid db cbody = (Inr t, db')" for t db'
    using that by (auto simp: post_tasks_def split: sum.splits dest: create_task_progress)
  show ?thesis
    using a b c d
    by (simp add: validate_update_good_progress validate_step_good_progress
        validate_create_extra) blast
qed

theorem progress_out_of_range_rejected_witness:
  "patch_task ''t1'' ''t2'' ex_db ex_id (empty_body\<lparr>ru_progress := Val (- 1)\<rparr>) =
     (Inl RequestValidationError, ex_db) \<and>
   patch_task ''t1'' ''t2'' ex_db ex_id (empty_body\<lparr>ru_progress := Val 101\<rparr>) =
     (Inl RequestValidationError, ex_db) \<and>
   patch_task ''t1'' ''t2'' ex_db ex_id
     (empty_body\<lparr>ru_steps := Val [(named_step ''a'')\<lparr>rs_progress := Val 101\<rparr>]\<rparr>) =
     (Inl RequestValidationError, ex_db) \<and>
   post_tasks ''t0'' ex_key Map.empty
     ((named_body ''n'')\<lparr>rc_steps := Val [(named_step ''a'')\<lparr>rs_progress := Val (- 1)\<rparr>]\<rparr>) =
     (Inl RequestValidationError, Map.empty) \<and>
   validate_update (empty_body\<lparr>ru_progress := Val 0\<rparr>) = Inr (empty_update\<lparr>u_progress := Val 0\<rparr>) \<and>
   validate_update (empty_body\<lparr>ru_progress := Val 100\<rparr>) =
     Inr (empty_update\<lparr>u_progress := Val 100\<rparr>) \<and>
   fst (patch_task ''t1'' ''t2'' ex_db ex_id (empty_body\<lparr>ru_progress := Val 100\<rparr>)) =
     Inr (ex_task\<lparr>progress := 100\<rparr>) \<and>
   validate_step ((named_step ''a'')\<lparr>rs_progress := Val 0\<rparr>) =
     Inr \<lparr>step_name = ''a'', step_status = Queued, step_llm = None, step_progress = Some 0,
          step_duration = None\<rparr> \<and>
   validate_step ((named_step ''a'')\<lparr>rs_progress := Val 100\<rparr>) =
     Inr \<lparr>step_name = ''a'', step_status = Queued, step_llm = None, step_progress = Some 100,
          step_duration = None\<rparr>"
proof -
  let ?bad = "(named_step ''a'')\<lparr>rs_progress := Val 101\<rparr>"
  let ?neg = "(named_step ''a'')\<lparr>rs_progress := Val (- 1)\<rparr>"
  note t = progress_out_of_range_rejected
  have r1: "patch_task ''t1'' ''t2'' ex_db ex_id (empty_body\<lparr>ru_progress := Val (- 1)\<rparr>) =
      (Inl RequestValidationError, ex_db)"
    using t [where body = "empty_body\<lparr>ru_progress := Val (- 1)\<rparr>" and p = "- 1"
        and db = ex_db and task_id = ex_id and ?now1.0 = "''t1''" and ?now2.0 = "''t2''"]
    by simp
  have r2: "patch_task ''t1'' ''t2'' ex_db ex_id (empty_body\<lparr>ru_progress := Val 101\<rparr>) =
      (Inl RequestValidationError, ex_db)"
    using t [where body = "empty_body\<lparr>ru_progress := Val 101\<rparr>" and p = 101
        and db = ex_db and task_id = ex_id and ?now1.0 = "''t1''" and ?now2.0 = "''t2''"]
    by simp
  have r3: "patch_task ''t1'' ''t2'' ex_db ex_id (empty_body\<lparr>ru_steps := Val [?bad]\<rparr>) =
      (Inl RequestValidationError, ex_db)"
    using t [where body = "empty_body\<lparr>ru_steps := Val [?bad]\<rparr>"
        and db = ex_db and task_id = ex_id and ?now1.0 = "''t1''" and ?now2.0 = "''t2''"]
    by (auto simp: named_step_def)
  have r4: "post_tasks ''t0'' ex_key Map.empty ((named_body ''n'')\<lparr>rc_steps := Val [?neg]\<rparr>) =
      (Inl RequestValidationError, Map.empty)"
    using t [where cbody = "(named_body ''n'')\<lparr>rc_steps := Val [?neg]\<rparr>"
        and db = Map.empty and new_oid = ex_key and now = "''t0''"]
    by (auto simp: named_step_def)
  have a0: "validate_update (empty_body\<lparr>ru_progress := Val 0\<rparr>) =
      Inr (empty_update\<lparr>u_progress := Val 0\<rparr>)"
    using t [where body = empty_body and p = 0]
    by (simp add: empty_body_valid [simplified empty_body_def] empty_body_def)
  have a100: "validate_update (empty_body\<lparr>ru_progress := Val 100\<rparr>) =
      Inr (empty_update\<lparr>u_progress := Val 100\<rparr>)"
    using t [where body = empty_body and p = 100]
    by (simp add: empty_body_valid [simplified empty_body_def] empty_body_def)
  have u100: "fst (patch_task ''t1'' ''t2'' ex_db ex_id (empty_body\<lparr>ru_progress := Val 100\<rparr>)) =
      Inr (ex_task\<lparr>progress := 100\<rparr>)"
    by (simp add: patch_task_def a100 ex_update Let_def)
       (simp add: empty_update_def updates_empty_def apply_set_def serialize_task_def
         doc_valid_def ex_doc_def ex_task_def ex_key_def default_steps_ok)
  have s0: "validate_step ((named_step ''a'')\<lparr>rs_progress := Val 0\<rparr>) =
      Inr \<lparr>step_name = ''a'', step_status = Queued, step_llm = None, step_progress = Some 0,
           step_duration = None\<rparr>"
    using t [where p = 0]
    by (simp add: validate_step_def named_step_def in_range_def literal_def parse_status_def)
  have s100: "validate_step ((named_step ''a'')\<lparr>rs_progress := Val 100\<rparr>) =
      Inr \<lparr>step_name = ''a'', step_status = Queued, step_llm = None, step_progress = Some 100,
           step_duration = None\<rparr>"
    using t [where p = 100]
    by (simp add: validate_step_def named_step_def in_range_def literal_def parse_status_def)
  from r1 r2 r3 r4 a0 a100 u100 s0 s100 show ?thesis
    by simp
qed



text \<open>
  C9. An update of an existing task keeps the document's \<^verbatim>\<open>startTime\<close> and the set of
  stored identifiers; a Task the update returns carries the identifier of the document
  and its start time, the same as a Task read before the update. A request cannot
  supply either field: \<^verbatim>\<open>UpdateTaskRequest\<close> declares neither, and keys it does not
  declare are ignored.
\<close>

theorem update_keeps_id_and_start:
  assumes "object_id task_id = Some k" and "db k = Some d"
  shows "(\<exists>d'. snd (update_task now1 now2 db task_id req) k = Some d' \<and>
            d_startTime d' = d_startTime d) \<and>
         dom (snd (update_task now1 now2 db task_id req)) = dom db \<and>
         (\<forall>t'. fst (update_task now1 now2 db task_id req) = Inr t' \<longrightarrow>
            t_id t' = Some (str_oid k) \<and> startTime t' = iso_start (d_startTime d)) \<and>
         (\<forall>t t'. get_task db task_id = Inr t \<and>
            fst (update_task now1 now2 db task_id req) = Inr t' \<longrightarrow>
            t_id t' = t_id t \<and> startTime t' = startTime t) \<and>
         (\<forall>body x. validate_update (body\<lparr>ru_extra := x\<rparr>) = validate_update body)"
proof -
  let ?u = "update_task now1 now2 db task_id req"
  note stored = update_task_stored [where task_id = task_id and k = k and db = db and d = d
      and req = req and ?now1.0 = now1 and ?now2.0 = now2, OF assms]
  note result = update_task_fst [where task_id = task_id and k = k and db = db and d = d
      and req = req and ?now1.0 = now1 and ?now2.0 = now2, OF assms]
  have a: "\<exists>d'. snd ?u k = Some d' \<and> d_startTime d' = d_startTime d"
    by (simp add: stored apply_set_def split: option.splits)
  have b: "dom (snd ?u) = dom db"
    using assms(2) by (auto simp: stored)
  have c: "t_id t' = Some (str_oid k) \<and> startTime t' = iso_start (d_startTime d)"
    if "fst ?u = Inr t'" for t'
    using that a result by (auto simp: serialize_task_def split: if_splits)
  have e: "t_id t = Some (str_oid k) \<and> startTime t = iso_start (d_startTime d)"
    if "get_task db task_id = Inr t" for t
    using that assms by (auto simp: get_task_def oid_def serialize_task_def split: if_splits)
  from a b c e show ?thesis
    by (simp add: validate_update_extra)
qed

theorem update_keeps_id_and_start_witness:
  "object_id ex_id = Some ex_key \<and> ex_db ex_key = Some ex_doc \<and>
   get_task ex_db ex_id = Inr ex_task \<and>
   fst (update_task ''t1'' ''t2'' ex_db ex_id (empty_update\<lparr>u_name := Val ''renamed''\<rparr>)) =
     Inr (ex_task\<lparr>name := ''renamed''\<rparr>) \<and>
   t_id (ex_task\<lparr>name := ''renamed''\<rparr>) = t_id ex_task \<and>
   startTime (ex_task\<lparr>name := ''renamed''\<rparr>) = startTime ex_task \<and>
   (\<exists>d'. snd (update_task ''t1'' ''t2'' ex_db ex_id (empty_update\<lparr>u_name := Val ''renamed''\<rparr>))
            ex_key = Some d' \<and> d_startTime d' = d_startTime ex_doc)"
proof -
  have u: "fst (update_task ''t1'' ''t2'' ex_db ex_id (empty_update\<lparr>u_name := Val ''renamed''\<rparr>)) =
      Inr (ex_task\<lparr>name := ''renamed''\<rparr>)"
    by (simp add: ex_update Let_def)
       (simp add: empty_update_def updates_empty_def apply_set_def serialize_task_def
         doc_valid_def ex_doc_def ex_task_def ex_key_def default_steps_ok)
  show ?thesis
    using update_keeps_id_and_start [where task_id = ex_id and k = ex_key and db = ex_db
        and d = ex_doc and req = "empty_update\<lparr>u_name := Val ''renamed''\<rparr>"
        and ?now1.0 = "''t1''" and ?now2.0 = "''t2''"]
    by (simp add: ex_object_id ex_db_key ex_get_task u)
qed




subsection \<open>The conversation gate\<close>







end
